theory Spec2Isabelle
  imports Complex_Main
begin

section \<open>JavaScript values shared by the modules\<close>

text \<open>
  A thrown \<^verbatim>\<open>Error\<close> (or a rejected promise, once awaited) is a value of
  \<open>js_error\<close>; a function that may throw returns \<open>js_error + 'a\<close>, with \<open>Inl\<close> the error.
\<close>

datatype js_error = Error string | SyntaxError string

section \<open>Platform objects\<close>

text \<open>
  The properties of a \<^verbatim>\<open>User\<close> and of a \<^verbatim>\<open>GuildMember\<close> that the modules read.
  \<^verbatim>\<open>member.id\<close> is the identifier of the member's user. \<open>user_ref\<close> is the identity
  of the \<^verbatim>\<open>User\<close> object: \<^verbatim>\<open>a !== b\<close> compares the objects, not their properties.
\<close>

record User =
  user_ref :: nat
  user_id :: string
  username :: string
  user_bot :: bool
  tag :: string

record GuildMember =
  member_guild_id :: string
  member_user :: User

definition member_id :: "GuildMember \<Rightarrow> string" where
  "member_id member = user_id (member_user member)"

section \<open>HouseRoles/dbController.ts\<close>

record HouseRecord =
  hr_guildId :: string
  hr_memberId :: string
  hr_flags :: int
  hr_when :: int

text \<open>
  The database behind \<^verbatim>\<open>getDB()\<close> is an external collaborator: a table name is mapped to
  its rows, and a query against a table that does not exist is rejected.
\<close>

type_synonym database = "string \<rightharpoonup> HouseRecord list"

definition where_first :: "database \<Rightarrow> string \<Rightarrow> string \<Rightarrow> string \<Rightarrow> js_error + HouseRecord option" where
  "where_first DB tableName gid mid =
     (case DB tableName of
        None \<Rightarrow> Inl (Error ''no such table'')
      | Some rows \<Rightarrow> Inr (find (\<lambda>r. hr_guildId r = gid \<and> hr_memberId r = mid) rows))"

record HouseRolesDBController =
  TABLE_NAME :: string
  LOCAL_CACHE :: "string \<rightharpoonup> HouseRecord"
  INIT_COMPLETE :: bool

definition getLocalKey :: "GuildMember \<Rightarrow> string" where
  "getLocalKey member = member_guild_id member @ '':'' @ member_id member"

definition mustBeInitialized :: "HouseRolesDBController \<Rightarrow> js_error + unit" where
  "mustBeInitialized controller =
     (if \<not> INIT_COMPLETE controller then Inl (Error ''Controller must be initialized first'')
      else Inr ())"

text \<open>
  \<^verbatim>\<open>getRecord(member, useCache = true)\<close>: the result is the awaited value of the promise
  (\<open>None\<close> is \<^verbatim>\<open>undefined\<close>) together with the controller after the call.
\<close>

definition getRecord ::
  "database \<Rightarrow> HouseRolesDBController \<Rightarrow> GuildMember \<Rightarrow> bool
    \<Rightarrow> (js_error + HouseRecord option) \<times> HouseRolesDBController" where
  "getRecord DB this member useCache =
     (case mustBeInitialized this of
        Inl e \<Rightarrow> (Inl e, this)
      | Inr _ \<Rightarrow>
         (let localKey = getLocalKey member;
              localValue = (if useCache then LOCAL_CACHE this localKey else None)
          in case localValue of
               Some v \<Rightarrow> (Inr (Some v), this)
             | None \<Rightarrow>
                (case where_first DB (TABLE_NAME this) (member_guild_id member) (member_id member) of
                   Inl e \<Rightarrow> (Inl e, this)
                 | Inr None \<Rightarrow> (Inr None, this)
                 | Inr (Some remoteValue) \<Rightarrow>
                     (Inr None, this\<lparr>LOCAL_CACHE := (LOCAL_CACHE this)(localKey \<mapsto> remoteValue)\<rparr>))))"

section \<open>StarsControl: data\<close>

record Message =
  message_id :: string
  message_guild_id :: "string option"
  channel_id :: string
  message_content :: string
  webhookID :: "string option"
  createdAt :: int

record MessageReaction =
  emoji_name :: string
  message :: Message

record IAddedReaction =
  reaction :: MessageReaction
  user :: User

text \<open>\<^verbatim>\<open>ContentDisqualifyCondition\<close> is the pair \<^verbatim>\<open>[pos, match]\<close>.\<close>

type_synonym ContentDisqualifyCondition = "string \<times> string"

text \<open>
  An optional property is \<open>None\<close> when it is \<^verbatim>\<open>undefined\<close> or \<^verbatim>\<open>null\<close>. Numbers are
  modelled as reals (no NaN, no rounding).
\<close>

record IMessageDisqualification =
  authors :: "string list option"
  channels :: "string list option"
  content :: "ContentDisqualifyCondition option"
  aged :: "real option"
  reason :: "string option"

record IStarControlSettings =
  guildId :: string
  badStars :: "IMessageDisqualification list option"
  selfStarring :: "bool option"
  starEmoji :: "string option"
  blockedStarrers :: "string list option"

definition DAY_IN_MINUTES :: real where
  "DAY_IN_MINUTES = 1440"

text \<open>The star glyph U+2B50, in UTF-8.\<close>

definition STAR_REACTION :: string where
  "STAR_REACTION = [CHR 0xE2, CHR 0xAD, CHR 0x90]"

text \<open>
  The result of a check is \<^verbatim>\<open>boolean | string\<close>; \<open>ToBoolean\<close> is JavaScript's truthiness
  on that type.
\<close>

datatype check_result = Bool bool | Str string

fun ToBoolean :: "check_result \<Rightarrow> bool" where
  "ToBoolean (Bool b) = b"
| "ToBoolean (Str s) = (s \<noteq> [])"

text \<open>A compiled pattern is an object: \<open>ref\<close> is its identity, \<open>source\<close> its pattern text.\<close>

datatype RegExp = RegExp (ref: nat) (source: string)

datatype api_call =
    UsersRemove string string string
  | Send string string "string option"

text \<open>
  The state the module works on: the module-level \<^verbatim>\<open>REGEX_CACHE\<close> with the number of
  pattern objects allocated so far, the reactions present on the platform (message, emoji,
  user), the requests made to the platform, and the log.
\<close>

record world =
  REGEX_CACHE :: "string \<rightharpoonup> RegExp"
  allocated :: nat
  reactions :: "(string \<times> string \<times> string) set"
  calls :: "api_call list"
  logged :: "(string \<times> string) list"

text \<open>
  What \<^verbatim>\<open>getMessageMemberOrAuthor\<close> resolves to: a \<^verbatim>\<open>GuildMember\<close> or a \<^verbatim>\<open>User\<close>.
\<close>

datatype sender = IsGuildMember GuildMember | IsUser User

text \<open>
  The collaborators imported from the host (\<^verbatim>\<open>@utils/time\<close>, \<^verbatim>\<open>@utils/utils\<close>, the
  \<^verbatim>\<open>RegExp\<close> engine, the platform client) are parameters. \<open>timeDiff t1 t2\<close> is
  \<^verbatim>\<open>timeDiff(t1, t2, "s")\<close>; \<open>RegExp_valid\<close> says whether \<^verbatim>\<open>new RegExp(str)\<close> returns
  rather than throws; \<open>RegExp_test\<close> is \<^verbatim>\<open>new RegExp(str).test(s)\<close>; \<open>remove_ok\<close> and
  \<open>send_ok\<close> say whether the platform accepts the request.
\<close>

record externals =
  timeDiff :: "int \<Rightarrow> int \<Rightarrow> real"
  Date_now :: int
  getMessageMember :: "Message \<Rightarrow> js_error + GuildMember option"
  getMessageMemberOrAuthor :: "Message \<Rightarrow> js_error + sender option"
  RegExp_valid :: "string \<Rightarrow> bool"
  RegExp_test :: "string \<Rightarrow> string \<Rightarrow> bool"
  remove_ok :: "MessageReaction \<Rightarrow> User \<Rightarrow> bool"
  send_ok :: "User \<Rightarrow> bool"

section \<open>StarsControl: the regex cache\<close>

definition new_RegExp :: "externals \<Rightarrow> string \<Rightarrow> world \<Rightarrow> (js_error + RegExp) \<times> world" where
  "new_RegExp ext str w =
     (if RegExp_valid ext str
      then (Inr (RegExp (allocated w) str), w\<lparr>allocated := Suc (allocated w)\<rparr>)
      else (Inl (SyntaxError str), w))"

definition regExp :: "externals \<Rightarrow> string \<Rightarrow> world \<Rightarrow> (js_error + RegExp) \<times> world" where
  "regExp ext str w =
     (case REGEX_CACHE w str of
        Some cached \<Rightarrow> (Inr cached, w)
      | None \<Rightarrow>
         (case new_RegExp ext str w of
            (Inl e, w') \<Rightarrow> (Inl e, w')
          | (Inr r, w') \<Rightarrow> (Inr r, w'\<lparr>REGEX_CACHE := (REGEX_CACHE w')(str \<mapsto> r)\<rparr>)))"

text \<open>Compiling a list of patterns one after the other, whatever each call returns.\<close>

fun regExp_all :: "externals \<Rightarrow> string list \<Rightarrow> world \<Rightarrow> world" where
  "regExp_all ext [] w = w"
| "regExp_all ext (s # ss) w = regExp_all ext ss (snd (regExp ext s w))"

section \<open>StarsControl: the any-of combinator\<close>

text \<open>
  \<^verbatim>\<open>CalledMap\<close> is an object used as a map: its own properties in the order of their
  creation. \<open>assign\<close> is \<^verbatim>\<open>obj[name] = v\<close>: an existing property keeps its place.
\<close>

type_synonym 'v js_object = "(string \<times> 'v) list"

fun assign :: "'v js_object \<Rightarrow> string \<Rightarrow> 'v \<Rightarrow> 'v js_object" where
  "assign [] name v = [(name, v)]"
| "assign ((k, x) # ps) name v = (if k = name then (k, v) # ps else (k, x) # assign ps name v)"

text \<open>
  \<^verbatim>\<open>for (const name in obj)\<close> enumerates the property names that are array indices
  (canonical decimal numerals below \<open>2\<^sup>3\<^sup>2 - 1\<close>) first, in ascending numeric order, and
  then the other names in the order of their creation.
\<close>

definition isDigit :: "char \<Rightarrow> bool" where
  "isDigit c = (48 \<le> (of_char c :: nat) \<and> (of_char c :: nat) \<le> 57)"

definition toNumber :: "string \<Rightarrow> nat" where
  "toNumber s = foldl (\<lambda>n c. 10 * n + ((of_char c :: nat) - 48)) 0 s"

definition isArrayIndex :: "string \<Rightarrow> bool" where
  "isArrayIndex s =
     (s \<noteq> [] \<and> list_all isDigit s \<and> (s = ''0'' \<or> hd s \<noteq> CHR ''0'') \<and> toNumber s < 4294967295)"

definition forIn :: "'v js_object \<Rightarrow> 'v js_object" where
  "forIn obj =
     sort_key (\<lambda>p. toNumber (fst p)) (filter (\<lambda>p. isArrayIndex (fst p)) obj)
       @ filter (\<lambda>p. \<not> isArrayIndex (fst p)) obj"

text \<open>
  An \<^verbatim>\<open>AnyOfChecker\<close> is an asynchronous function: awaited, it returns or throws, and it
  may change the state \<open>'s\<close> it runs in.
\<close>

type_synonym ('t, 's) AnyOfChecker = "'t \<Rightarrow> 's \<Rightarrow> (js_error + check_result) \<times> 's"

type_synonym ('t, 's) AnyOfResult =
  "'t \<Rightarrow> 's \<Rightarrow> (js_error + (string \<times> check_result) option) \<times> 's"

text \<open>The body of the loop of \<^verbatim>\<open>calledAnyOf\<close>, over the enumerated properties.\<close>

fun anyOf_loop ::
  "(check_result \<Rightarrow> bool) option \<Rightarrow> ('t, 's) AnyOfChecker js_object \<Rightarrow> ('t, 's) AnyOfResult" where
  "anyOf_loop how [] args s = (Inr None, s)"
| "anyOf_loop how ((name, func) # fs) args s =
     (case func args s of
        (Inl e, s') \<Rightarrow> (Inl e, s')
      | (Inr res, s') \<Rightarrow>
         (case how of
            None \<Rightarrow> if ToBoolean res then (Inr (Some (name, res)), s') else anyOf_loop how fs args s'
          | Some h \<Rightarrow> if h res then (Inr (Some (name, res)), s') else anyOf_loop how fs args s'))"

definition calledAnyOf ::
  "('t, 's) AnyOfChecker js_object \<Rightarrow> (check_result \<Rightarrow> bool) option \<Rightarrow> ('t, 's) AnyOfResult" where
  "calledAnyOf functions how = anyOf_loop how (forIn functions)"

text \<open>
  \<open>passes fs args s\<close> is the state after all checks of \<open>fs\<close> have been awaited in turn
  from \<open>s\<close>, when each of them returned a falsy result; \<open>None\<close> otherwise.
\<close>

fun passes :: "('t, 's) AnyOfChecker js_object \<Rightarrow> 't \<Rightarrow> 's \<Rightarrow> 's option" where
  "passes [] args s = Some s"
| "passes ((name, func) # fs) args s =
     (case func args s of
        (Inl e, s') \<Rightarrow> None
      | (Inr res, s') \<Rightarrow> if ToBoolean res then None else passes fs args s')"

section \<open>StarsControl: the predicate matchers\<close>

text \<open>\<^verbatim>\<open>startsWith\<close>, \<^verbatim>\<open>endsWith\<close> and \<^verbatim>\<open>includes\<close> on strings.\<close>

definition startsWith :: "string \<Rightarrow> string \<Rightarrow> bool" where
  "startsWith str search = (take (length search) str = search)"

definition endsWith :: "string \<Rightarrow> string \<Rightarrow> bool" where
  "endsWith str search = (length search \<le> length str \<and> drop (length str - length search) str = search)"

fun includes_str :: "string \<Rightarrow> string \<Rightarrow> bool" where
  "includes_str [] search = (search = [])"
| "includes_str (c # cs) search = (startsWith (c # cs) search \<or> includes_str cs search)"

text \<open>
  \<^verbatim>\<open>_contentMatch\<close> is declared \<^verbatim>\<open>async\<close>: a call returns a promise, here the value the
  promise is fulfilled with. A promise is an object, and every object is truthy.
\<close>

type_synonym 'a promise = "js_error + 'a"

definition contentMatch :: "string \<Rightarrow> ContentDisqualifyCondition \<Rightarrow> bool promise" where
  "contentMatch cont cond =
     (case cond of (pos, match) \<Rightarrow>
        if (pos = ''equal'' \<and> cont = match)
           \<or> (pos = ''includes'' \<and> includes_str cont match)
           \<or> (pos = ''starts'' \<and> startsWith cont match)
           \<or> (pos = ''ends'' \<and> endsWith cont match)
        then Inr True
        else Inr False)"

definition promise_ToBoolean :: "'a promise \<Rightarrow> bool" where
  "promise_ToBoolean p = True"

definition string_ToBoolean :: "string option \<Rightarrow> bool" where
  "string_ToBoolean v = (case v of None \<Rightarrow> False | Some s \<Rightarrow> s \<noteq> [])"

text \<open>The loop of \<^verbatim>\<open>_authoredBy\<close>; \<open>sender\<close> is already reduced to a \<^verbatim>\<open>User\<close>.\<close>

fun authoredBy_loop :: "Message \<Rightarrow> User option \<Rightarrow> string list \<Rightarrow> bool" where
  "authoredBy_loop msg sender [] = False"
| "authoredBy_loop msg sender (author # rest) =
     (if author = ''$bots'' then
        (if (case sender of None \<Rightarrow> False | Some u \<Rightarrow> user_bot u) then True
         else authoredBy_loop msg sender rest)
      else if author = ''$hooks'' then
        (if string_ToBoolean (webhookID msg) then True
         else authoredBy_loop msg sender rest)
      else if startsWith author ''$hook:'' then
        (let hookId = drop (length ''$hook:'') author
         in if webhookID msg = Some hookId then True
            else authoredBy_loop msg sender rest)
      else if (case sender of None \<Rightarrow> False | Some u \<Rightarrow> user_id u = author) then True
      else authoredBy_loop msg sender rest)"

definition authoredBy :: "externals \<Rightarrow> Message \<Rightarrow> string list \<Rightarrow> js_error + bool" where
  "authoredBy ext msg authors' =
     (case getMessageMemberOrAuthor ext msg of
        Inl e \<Rightarrow> Inl e
      | Inr resolved \<Rightarrow>
         (let sender = (case resolved of
                          None \<Rightarrow> None
                        | Some (IsGuildMember m) \<Rightarrow> Some (member_user m)
                        | Some (IsUser u) \<Rightarrow> Some u)
          in Inr (authoredBy_loop msg sender authors')))"

definition minutesSinceSent :: "externals \<Rightarrow> Message \<Rightarrow> real" where
  "minutesSinceSent ext msg =
     (let passed = timeDiff ext (Date_now ext) (createdAt msg) in passed / 60)"

text \<open>
  \<^verbatim>\<open>_isDisqualified\<close>. The call of \<^verbatim>\<open>_authoredBy\<close> is awaited, the call of
  \<^verbatim>\<open>_contentMatch\<close> is not: \<open>isMatches\<close> is the promise.
\<close>

definition isDisqualified ::
  "externals \<Rightarrow> MessageReaction \<Rightarrow> IMessageDisqualification \<Rightarrow> js_error + bool" where
  "isDisqualified ext reaction' disqual =
     (let msg = message reaction' in
      if (case aged disqual of
            None \<Rightarrow> False
          | Some aged' \<Rightarrow> minutesSinceSent ext msg < aged')
      then Inr False
      else if (case channels disqual of
                 None \<Rightarrow> False
               | Some channels' \<Rightarrow> channel_id msg \<notin> set channels')
      then Inr False
      else
        (case (case authors disqual of
                 None \<Rightarrow> Inr True
               | Some authors' \<Rightarrow> authoredBy ext msg authors') of
           Inl e \<Rightarrow> Inl e
         | Inr isAuthored \<Rightarrow>
            if \<not> isAuthored then Inr False
            else if (case content disqual of
                       None \<Rightarrow> False
                     | Some content' \<Rightarrow>
                        (let isMatches = contentMatch (message_content msg) content'
                         in \<not> promise_ToBoolean isMatches))
            then Inr False
            else Inr True))"

text \<open>\<^verbatim>\<open>disqual.reason || true\<close>\<close>

definition reason_or_true :: "IMessageDisqualification \<Rightarrow> check_result" where
  "reason_or_true disqual =
     (case reason disqual of
        None \<Rightarrow> Bool True
      | Some r \<Rightarrow> if r \<noteq> [] then Str r else Bool True)"

fun handleDisqualify_loop ::
  "externals \<Rightarrow> MessageReaction \<Rightarrow> IMessageDisqualification list \<Rightarrow> js_error + check_result" where
  "handleDisqualify_loop ext reaction' [] = Inr (Bool False)"
| "handleDisqualify_loop ext reaction' (disqual # rest) =
     (case isDisqualified ext reaction' disqual of
        Inl e \<Rightarrow> Inl e
      | Inr disqualify \<Rightarrow>
         if disqualify then Inr (reason_or_true disqual)
         else handleDisqualify_loop ext reaction' rest)"

definition handleDisqualify ::
  "externals \<Rightarrow> IStarControlSettings \<Rightarrow> (IAddedReaction, world) AnyOfChecker" where
  "handleDisqualify ext settings toCheck w =
     (case badStars settings of
        None \<Rightarrow> (Inr (Bool False), w)
      | Some disquals \<Rightarrow> (handleDisqualify_loop ext (reaction toCheck) disquals, w))"

fun starredBy :: "externals \<Rightarrow> User \<Rightarrow> string list \<Rightarrow> world \<Rightarrow> (js_error + bool) \<times> world" where
  "starredBy ext user' [] w = (Inr False, w)"
| "starredBy ext user' (starrer # rest) w =
     (if starrer = ''$bots'' then
        (if user_bot user' then (Inr True, w) else starredBy ext user' rest w)
      else if startsWith starrer ''$username:'' then
        (let username' = drop (length ''$username'') starrer
         in if username user' = username' then (Inr True, w) else starredBy ext user' rest w)
      else if startsWith starrer ''$username_reg:'' then
        (let reg = drop (length ''$username_reg:'') starrer
         in case regExp ext reg w of
              (Inl e, w') \<Rightarrow> (Inl e, w')
            | (Inr r, w') \<Rightarrow>
                if RegExp_test ext (source r) (username user') then (Inr True, w')
                else starredBy ext user' rest w')
      else if user_id user' = starrer then (Inr True, w)
      else starredBy ext user' rest w)"

definition handleBlockedStarrers ::
  "externals \<Rightarrow> IStarControlSettings \<Rightarrow> (IAddedReaction, world) AnyOfChecker" where
  "handleBlockedStarrers ext settings toCheck w =
     (case blockedStarrers settings of
        None \<Rightarrow> (Inr (Bool False), w)
      | Some blocked \<Rightarrow>
         (case starredBy ext (user toCheck) blocked w of
            (Inl e, w') \<Rightarrow> (Inl e, w')
          | (Inr b, w') \<Rightarrow> if b then (Inr (Bool True), w') else (Inr (Bool False), w')))"

definition handleSelfStar ::
  "externals \<Rightarrow> IStarControlSettings \<Rightarrow> (IAddedReaction, world) AnyOfChecker" where
  "handleSelfStar ext settings toCheck w =
     (if selfStarring settings \<noteq> Some True then (Inr (Bool False), w)
      else case getMessageMember ext (message (reaction toCheck)) of
             Inl e \<Rightarrow> (Inl e, w)
           | Inr None \<Rightarrow> (Inr (Bool False), w)
           | Inr (Some poster) \<Rightarrow>
               if user_ref (member_user poster) \<noteq> user_ref (user toCheck)
               then (Inr (Bool False), w)
               else (Inr (Bool True), w))"

section \<open>StarsControl: configuration and the rule compiler\<close>

text \<open>
  An own property of the loaded configuration object: absent, present holding
  \<^verbatim>\<open>null\<close> or \<^verbatim>\<open>undefined\<close>, or present holding a value. The object spread
  \<^verbatim>\<open>{ ...defaults, ...cfg }\<close> lets every present property of \<^verbatim>\<open>cfg\<close> override the default.
\<close>

datatype 'a property = Absent | Nullish | Value 'a

fun spread :: "'a option \<Rightarrow> 'a property \<Rightarrow> 'a option" where
  "spread d Absent = d"
| "spread d Nullish = None"
| "spread d (Value v) = Some v"

record config =
  cfg_guildId :: "string option"
  cfg_badStars :: "IMessageDisqualification list property"
  cfg_selfStarring :: "bool property"
  cfg_starEmoji :: "string property"
  cfg_blockedStarrers :: "string list property"

definition no_conditions :: IMessageDisqualification where
  "no_conditions = \<lparr>authors = None, channels = None, content = None, aged = None, reason = None\<rparr>"

definition initConfig :: "config option \<Rightarrow> js_error + IStarControlSettings" where
  "initConfig loaded =
     (case loaded of
        None \<Rightarrow> Inl (Error ''No configuration file found. An example config created'')
      | Some cfg \<Rightarrow>
         (case cfg_guildId cfg of
            None \<Rightarrow> Inl (Error ''Guild ID must be provided in config'')
          | Some gid \<Rightarrow>
             if gid = [] then Inl (Error ''Guild ID must be provided in config'')
             else Inr \<lparr>guildId = gid,
                       badStars = spread (Some [no_conditions\<lparr>authors := Some [''$bots'', ''$hooks'']\<rparr>,
                                               no_conditions\<lparr>aged := Some DAY_IN_MINUTES\<rparr>])
                                         (cfg_badStars cfg),
                       selfStarring = spread (Some True) (cfg_selfStarring cfg),
                       starEmoji = spread (Some STAR_REACTION) (cfg_starEmoji cfg),
                       blockedStarrers = spread (Some [''$bots'']) (cfg_blockedStarrers cfg)\<rparr>))"

record StarsControl =
  settings :: IStarControlSettings
  compiledDisqualificationProcess :: "(IAddedReaction, world) AnyOfResult option"

text \<open>The object \<^verbatim>\<open>disqualificationSteps\<close> that \<^verbatim>\<open>init\<close> builds and compiles.\<close>

definition disqualificationSteps ::
  "externals \<Rightarrow> IStarControlSettings \<Rightarrow> (IAddedReaction, world) AnyOfChecker js_object" where
  "disqualificationSteps ext settings' =
     (let steps0 = [];
          steps1 = (if blockedStarrers settings' \<noteq> None
                    then assign steps0 ''USER-BLOCK'' (handleBlockedStarrers ext settings')
                    else steps0);
          steps2 = (if badStars settings' \<noteq> None
                    then assign steps1 ''FILTER'' (handleDisqualify ext settings')
                    else steps1);
          steps3 = (if selfStarring settings' = Some True
                    then assign steps2 ''SELF-STAR'' (handleSelfStar ext settings')
                    else steps2)
      in steps3)"

text \<open>
  \<^verbatim>\<open>init\<close>; \<open>baseCheck\<close> and \<open>isPendingInitialization\<close> are the answers of the module
  loader.
\<close>

definition init :: "externals \<Rightarrow> bool \<Rightarrow> bool \<Rightarrow> config option \<Rightarrow> js_error + StarsControl" where
  "init ext baseCheck isPendingInitialization loaded =
     (if baseCheck \<and> \<not> isPendingInitialization then Inl (Error ''NOT_PENDING_INITIALIZATION'')
      else case initConfig loaded of
             Inl e \<Rightarrow> Inl e
           | Inr settings' \<Rightarrow>
               Inr \<lparr>settings = settings',
                    compiledDisqualificationProcess =
                      Some (calledAnyOf (disqualificationSteps ext settings') None)\<rparr>)"

section \<open>StarsControl: the entry point and the censure action\<close>

definition StarsControl_log :: "string \<Rightarrow> string \<Rightarrow> world \<Rightarrow> world" where
  "StarsControl_log level text w = w\<lparr>logged := logged w @ [(level, text)]\<rparr>"

definition request :: "api_call \<Rightarrow> world \<Rightarrow> world" where
  "request c w = w\<lparr>calls := calls w @ [c]\<rparr>"

text \<open>How the template strings print the pair \<^verbatim>\<open>[name, res]\<close>.\<close>

definition show_reasons :: "string \<times> check_result \<Rightarrow> string" where
  "show_reasons p =
     (case p of
        (name, Str r) \<Rightarrow> name @ '','' @ r
      | (name, Bool b) \<Rightarrow> name @ '','' @ (if b then ''true'' else ''false''))"

definition removeReaction ::
  "externals \<Rightarrow> MessageReaction \<Rightarrow> User \<Rightarrow> world \<Rightarrow> (js_error + unit) \<times> world" where
  "removeReaction ext reaction' user' w =
     (let key = (message_id (message reaction'), emoji_name reaction', user_id user');
          w1 = StarsControl_log ''info'' (''Remove reaction of '' @ emoji_name reaction' @ '' by '' @ tag user'
                              @ '' on message '' @ message_id (message reaction')) w;
          w2 = request (UsersRemove (message_id (message reaction')) (emoji_name reaction')
                          (user_id user')) w1
      in if remove_ok ext reaction' user'
         then (Inr (), w2\<lparr>reactions := reactions w2 - {key}\<rparr>)
         else (Inl (Error ''users.remove rejected''), w2))"

definition getAutoReasonStr :: "string \<Rightarrow> string" where
  "getAutoReasonStr autoReason = ''DNSERV_STAR_BLOCKED@'' @ autoReason"

text \<open>
  Localizing and sending the warning is one request to the platform; it is rejected when
  the platform does not accept it.
\<close>

definition sendReasonedWarning ::
  "externals \<Rightarrow> User \<Rightarrow> string \<Rightarrow> string \<Rightarrow> world \<Rightarrow> (js_error + unit) \<times> world" where
  "sendReasonedWarning ext user' autoReason reason' w =
     (let w1 = request (Send (user_id user') (getAutoReasonStr autoReason) (Some reason')) w
      in if send_ok ext user' then (Inr (), w1) else (Inl (Error ''send rejected''), w1))"

definition sendWarning ::
  "externals \<Rightarrow> User \<Rightarrow> string \<Rightarrow> world \<Rightarrow> (js_error + unit) \<times> world" where
  "sendWarning ext user' autoReason w =
     (let w1 = request (Send (user_id user') (getAutoReasonStr autoReason) None) w
      in if send_ok ext user' then (Inr (), w1) else (Inl (Error ''send rejected''), w1))"

definition handleReactionAdding ::
  "externals \<Rightarrow> StarsControl \<Rightarrow> MessageReaction \<Rightarrow> User \<Rightarrow> world \<Rightarrow> (js_error + bool) \<times> world" where
  "handleReactionAdding ext this reaction' user' w =
     (if message_guild_id (message reaction') \<noteq> Some (guildId (settings this)) then (Inr False, w)
      else if Some (emoji_name reaction') \<noteq> starEmoji (settings this) then (Inr False, w)
      else case compiledDisqualificationProcess this of
             None \<Rightarrow> (Inr False, StarsControl_log ''warn'' ''Star Disqualification Process is not compiled!'' w)
           | Some disqualProcess \<Rightarrow>
              (case disqualProcess \<lparr>reaction = reaction', user = user'\<rparr> w of
                 (Inl e, w1) \<Rightarrow> (Inl e, w1)
               | (Inr None, w1) \<Rightarrow> (Inr False, w1)
               | (Inr (Some disqualReasons), w1) \<Rightarrow>
                  (let w2 = StarsControl_log ''info'' (''Disallow reaction by '' @ tag user' @ '' on message ''
                                           @ message_id (message reaction') @ '' because: ''
                                           @ show_reasons disqualReasons @ [CHR 0x22]) w1
                   in case removeReaction ext reaction' user' w2 of
                        (Inl e, w3) \<Rightarrow> (Inl e, w3)
                      | (Inr _, w3) \<Rightarrow>
                         (let autoReason = fst disqualReasons;
                              reason' = snd disqualReasons
                          in case (case reason' of
                                     Str r \<Rightarrow> sendReasonedWarning ext user' autoReason r w3
                                   | Bool _ \<Rightarrow> sendWarning ext user' autoReason w3) of
                               (Inl err, w4) \<Rightarrow>
                                 (Inr True,
                                  StarsControl_log ''warn'' (''Cannot send warning ('' @ show_reasons disqualReasons
                                                 @ '') to '' @ tag user') w4)
                             | (Inr _, w4) \<Rightarrow> (Inr True, w4)))))"

section \<open>Example data\<close>

definition exampleRecord :: HouseRecord where
  "exampleRecord = \<lparr>hr_guildId = ''g1'', hr_memberId = ''m1'', hr_flags = 64, hr_when = 1000\<rparr>"

definition exampleDB :: database where
  "exampleDB = [''houseRoles'' \<mapsto> [exampleRecord]]"

definition exampleController :: HouseRolesDBController where
  "exampleController = \<lparr>TABLE_NAME = ''houseRoles'', LOCAL_CACHE = Map.empty, INIT_COMPLETE = True\<rparr>"

definition exampleUser :: User where
  "exampleUser = \<lparr>user_ref = 1, user_id = ''m1'', username = ''alice'', user_bot = False, tag = ''alice#0001''\<rparr>"

definition exampleMember :: GuildMember where
  "exampleMember = \<lparr>member_guild_id = ''g1'', member_user = exampleUser\<rparr>"

definition exampleMessage :: Message where
  "exampleMessage = \<lparr>message_id = ''900'', message_guild_id = Some ''g1'', channel_id = ''c1'',
     message_content = ''bar'', webhookID = None, createdAt = 0\<rparr>"

definition exampleHookMessage :: Message where
  "exampleHookMessage = exampleMessage\<lparr>webhookID := Some ''555''\<rparr>"

definition exampleReaction :: MessageReaction where
  "exampleReaction = \<lparr>emoji_name = STAR_REACTION, message = exampleMessage\<rparr>"

definition exampleToCheck :: IAddedReaction where
  "exampleToCheck = \<lparr>reaction = exampleReaction, user = exampleUser\<rparr>"

text \<open>
  Collaborators for the examples: \<^verbatim>\<open>timeDiff\<close> is the difference of two millisecond
  time stamps in seconds, a message sent through a webhook resolves to no sender, every
  pattern compiles, and the platform rejects direct messages.
\<close>

definition exampleExt :: externals where
  "exampleExt = \<lparr>timeDiff = (\<lambda>t1 t2. real_of_int (t1 - t2) / 1000),
     Date_now = 86400000,
     getMessageMember = (\<lambda>m. Inr None),
     getMessageMemberOrAuthor =
       (\<lambda>m. if webhookID m = None then Inr (Some (IsUser exampleUser)) else Inr None),
     RegExp_valid = (\<lambda>str. True),
     RegExp_test = (\<lambda>str s. False),
     remove_ok = (\<lambda>r u. True),
     send_ok = (\<lambda>u. False)\<rparr>"

definition emptyWorld :: world where
  "emptyWorld = \<lparr>REGEX_CACHE = Map.empty, allocated = 0, reactions = {}, calls = [], logged = []\<rparr>"

definition exampleSettings :: IStarControlSettings where
  "exampleSettings = \<lparr>guildId = ''g1'',
     badStars = Some [no_conditions\<lparr>channels := Some [''c9''], reason := Some ''first''\<rparr>,
                      no_conditions\<lparr>reason := Some ''second''\<rparr>],
     selfStarring = Some False,
     starEmoji = Some STAR_REACTION,
     blockedStarrers = Some [''$bots'']\<rparr>"

definition contentRuleSettings :: IStarControlSettings where
  "contentRuleSettings = exampleSettings\<lparr>badStars :=
     Some [no_conditions\<lparr>content := Some (''equal'', ''foo''), reason := Some ''first''\<rparr>,
           no_conditions\<lparr>reason := Some ''second''\<rparr>]\<rparr>"

definition exampleConfig :: config where
  "exampleConfig = \<lparr>cfg_guildId = Some ''g1'', cfg_badStars = Absent, cfg_selfStarring = Value False,
     cfg_starEmoji = Absent, cfg_blockedStarrers = Absent\<rparr>"

definition botUser :: User where
  "botUser = \<lparr>user_ref = 2, user_id = ''b7'', username = ''helper'', user_bot = True, tag = ''helper#0007''\<rparr>"

definition exampleModule :: StarsControl where
  "exampleModule = \<lparr>settings = exampleSettings,
     compiledDisqualificationProcess =
       Some (calledAnyOf (disqualificationSteps exampleExt exampleSettings) None)\<rparr>"

definition starredWorld :: world where
  "starredWorld = emptyWorld\<lparr>reactions := {(''900'', STAR_REACTION, ''b7'')}\<rparr>"

text \<open>A check instrumented to record its invocation in the state.\<close>

definition loggingCheck :: "string \<Rightarrow> check_result \<Rightarrow> (unit, string list) AnyOfChecker" where
  "loggingCheck label res args s = (Inr res, s @ [label])"

definition threeChecks :: "(unit, string list) AnyOfChecker js_object" where
  "threeChecks =
     assign (assign (assign [] ''USER-BLOCK'' (loggingCheck ''first'' (Str ''blocked'')))
                    ''FILTER'' (loggingCheck ''second'' (Bool True)))
            ''SELF-STAR'' (loggingCheck ''third'' (Bool True))"

definition passingChecks :: "(unit, string list) AnyOfChecker js_object" where
  "passingChecks =
     assign (assign [] ''USER-BLOCK'' (loggingCheck ''first'' (Bool False)))
            ''FILTER'' (loggingCheck ''second'' (Str []))"

definition indexNamedChecks :: "(unit, string list) AnyOfChecker js_object" where
  "indexNamedChecks =
     assign (assign [] ''1'' (loggingCheck ''one'' (Bool True)))
            ''0'' (loggingCheck ''zero'' (Str ''zero''))"

section \<open>Properties of the house-record controller\<close>

text \<open>
  C10. \<^verbatim>\<open>getRecord\<close> returns a record only on a local-cache hit. When the cache is
  bypassed or has no entry for the member and the query finds a row, the call returns
  \<^verbatim>\<open>undefined\<close>, stores the row in the local cache, and a following cache-using call
  returns that row.
\<close>

theorem getRecord_returns_only_cache_hits:
  "(fst (getRecord DB this member useCache) = Inr (Some r)
      \<longrightarrow> useCache \<and> LOCAL_CACHE this (getLocalKey member) = Some r)
   \<and> (INIT_COMPLETE this
        \<and> (\<not> useCache \<or> LOCAL_CACHE this (getLocalKey member) = None)
        \<and> where_first DB (TABLE_NAME this) (member_guild_id member) (member_id member) = Inr (Some r)
      \<longrightarrow> getRecord DB this member useCache
            = (Inr None, this\<lparr>LOCAL_CACHE := (LOCAL_CACHE this)(getLocalKey member \<mapsto> r)\<rparr>)
          \<and> fst (getRecord DB (snd (getRecord DB this member useCache)) member True) = Inr (Some r))"
  by (auto simp: getRecord_def mustBeInitialized_def Let_def
           split: sum.splits option.splits if_splits)

text \<open>
  The cache of an initialized controller is bypassed at a member whose row is in the table.
\<close>

theorem getRecord_returns_only_cache_hits_witness:
  "INIT_COMPLETE exampleController
   \<and> where_first exampleDB (TABLE_NAME exampleController) (member_guild_id exampleMember)
        (member_id exampleMember) = Inr (Some exampleRecord)
   \<and> getRecord exampleDB exampleController exampleMember False
       = (Inr None, exampleController\<lparr>LOCAL_CACHE :=
            (LOCAL_CACHE exampleController)(getLocalKey exampleMember \<mapsto> exampleRecord)\<rparr>)
   \<and> fst (getRecord exampleDB (snd (getRecord exampleDB exampleController exampleMember False))
            exampleMember True) = Inr (Some exampleRecord)"
proof -
  have init: "INIT_COMPLETE exampleController"
    by (simp add: exampleController_def)
  have found: "where_first exampleDB (TABLE_NAME exampleController) (member_guild_id exampleMember)
        (member_id exampleMember) = Inr (Some exampleRecord)"
    by (simp add: exampleController_def exampleDB_def exampleMember_def exampleUser_def
          exampleRecord_def where_first_def member_id_def)
  from getRecord_returns_only_cache_hits
         [of exampleDB exampleController exampleMember False exampleRecord] init found
  show ?thesis by blast
qed

section \<open>Properties of the regex cache\<close>

lemma regExp_keeps_entries:
  "REGEX_CACHE w k = Some c \<Longrightarrow> REGEX_CACHE (snd (regExp ext str w)) k = Some c"
  by (auto simp: regExp_def new_RegExp_def split: option.splits)

lemma regExp_all_keeps_entries:
  "REGEX_CACHE w k = Some c \<Longrightarrow> REGEX_CACHE (regExp_all ext strs w) k = Some c"
  by (induction strs arbitrary: w) (auto simp: regExp_keeps_entries)

lemma regExp_stores_result:
  "regExp ext str w = (Inr r, w') \<Longrightarrow> REGEX_CACHE w' str = Some r"
  by (auto simp: regExp_def new_RegExp_def split: option.splits if_splits)

lemma regExp_hit:
  "REGEX_CACHE w str = Some r \<Longrightarrow> regExp ext str w = (Inr r, w)"
  by (simp add: regExp_def)

lemma regExp_keeps_entries_result:
  "regExp ext str w = (res, w') \<Longrightarrow> REGEX_CACHE w k = Some c \<Longrightarrow> REGEX_CACHE w' k = Some c"
  using regExp_keeps_entries [of w k c ext str] by simp

lemma starredBy_keeps_entries:
  "REGEX_CACHE w k = Some c \<Longrightarrow> REGEX_CACHE (snd (starredBy ext u starrers w)) k = Some c"
proof (induction ext u starrers w rule: starredBy.induct)
  case (1 ext user' w)
  then show ?case by simp
next
  case (2 ext user' starrer rest w)
  then show ?case
    by (auto simp: Let_def split: prod.splits sum.splits)
       (blast dest: regExp_keeps_entries_result)+
qed

text \<open>
  C8. When compiling a pattern returns a compiled object, compiling the same pattern again,
  after any number of other compilations, returns the identical object (the same \<open>ref\<close>)
  and allocates nothing; and no entry of the cache is ever removed or replaced, neither by
  further compilations nor by the blocked-starrer check that compiles its patterns.
\<close>

theorem regExp_identity_reuse:
  assumes "regExp ext str w = (Inr r, w')"
  shows "regExp ext str (regExp_all ext others w') = (Inr r, regExp_all ext others w')
         \<and> (\<forall>k c. REGEX_CACHE w k = Some c \<longrightarrow>
               REGEX_CACHE (regExp_all ext others w') k = Some c
               \<and> REGEX_CACHE (snd (starredBy ext u starrers w)) k = Some c)"
proof -
  have "REGEX_CACHE w' str = Some r"
    using assms by (rule regExp_stores_result)
  then have "REGEX_CACHE (regExp_all ext others w') str = Some r"
    by (rule regExp_all_keeps_entries)
  then have first: "regExp ext str (regExp_all ext others w') = (Inr r, regExp_all ext others w')"
    by (rule regExp_hit)
  have "REGEX_CACHE w' k = Some c" if "REGEX_CACHE w k = Some c" for k c
    using assms that by (rule regExp_keeps_entries_result)
  then have "REGEX_CACHE (regExp_all ext others w') k = Some c" if "REGEX_CACHE w k = Some c" for k c
    using that by (simp add: regExp_all_keeps_entries)
  with first show ?thesis
    by (simp add: starredBy_keeps_entries)
qed

text \<open>
  Two compilations of one pattern with another pattern compiled in between.
\<close>

theorem regExp_identity_reuse_witness:
  "regExp exampleExt ''^a'' emptyWorld
     = (Inr (RegExp 0 ''^a''),
        emptyWorld\<lparr>allocated := 1, REGEX_CACHE := [''^a'' \<mapsto> RegExp 0 ''^a'']\<rparr>)
   \<and> fst (regExp exampleExt ''^a''
           (regExp_all exampleExt [''b+'']
              (emptyWorld\<lparr>allocated := 1, REGEX_CACHE := [''^a'' \<mapsto> RegExp 0 ''^a'']\<rparr>)))
       = Inr (RegExp 0 ''^a'')"
proof -
  have first: "regExp exampleExt ''^a'' emptyWorld
     = (Inr (RegExp 0 ''^a''),
        emptyWorld\<lparr>allocated := 1, REGEX_CACHE := [''^a'' \<mapsto> RegExp 0 ''^a'']\<rparr>)"
    by (simp add: regExp_def new_RegExp_def exampleExt_def emptyWorld_def)
  from regExp_identity_reuse [OF first, of "[''b+'']"] first
  show ?thesis by simp
qed

section \<open>Properties of the predicate matchers\<close>

subsection \<open>Blocked starrers\<close>

text \<open>
  C4. The rule \<^verbatim>\<open>$username:alice\<close> does not block the user whose username is
  \<^verbatim>\<open>alice\<close>; it blocks the user whose username is \<^verbatim>\<open>:alice\<close>, because the name is
  sliced at the length of \<^verbatim>\<open>$username\<close>, without the colon.
\<close>

theorem starredBy_username_literal_slice:
  "starredBy exampleExt exampleUser [''$username:alice''] emptyWorld = (Inr False, emptyWorld)
   \<and> starredBy exampleExt (exampleUser\<lparr>username := '':alice''\<rparr>) [''$username:alice''] emptyWorld
       = (Inr True, emptyWorld)"
  by (simp add: startsWith_def exampleUser_def)

subsection \<open>Disqualification rules\<close>

text \<open>
  C6. A rule whose only field is \<^verbatim>\<open>content = ["equal", "foo"]\<close> fires on a message whose
  text is \<^verbatim>\<open>bar\<close>, although the content condition does not hold: the promise returned by
  \<^verbatim>\<open>_contentMatch\<close> is tested, not its value.
\<close>

theorem isDisqualified_content_not_awaited:
  "contentMatch (message_content (message exampleReaction)) (''equal'', ''foo'') = Inr False
   \<and> isDisqualified exampleExt exampleReaction (no_conditions\<lparr>content := Some (''equal'', ''foo'')\<rparr>)
       = Inr True"
  by (simp add: isDisqualified_def contentMatch_def promise_ToBoolean_def no_conditions_def
        exampleReaction_def exampleMessage_def)

text \<open>
  C5. For a rule with an \<open>aged\<close> field, the age condition holds exactly when the minutes
  since the message was sent are greater than or equal to \<open>aged\<close>: at or above the
  threshold the rule fires as its other fields decide, below it the rule never fires.
\<close>

theorem isDisqualified_aged:
  "aged disqual = Some a \<Longrightarrow>
     isDisqualified ext r disqual
       = (if a \<le> minutesSinceSent ext (message r)
          then isDisqualified ext r (disqual\<lparr>aged := None\<rparr>)
          else Inr False)"
  by (simp add: isDisqualified_def Let_def not_le)

text \<open>
  A message exactly 1440 minutes old is disqualified by the rule \<open>aged = 1440\<close>; one
  millisecond younger, it is not.
\<close>

theorem isDisqualified_aged_witness:
  "aged (no_conditions\<lparr>aged := Some DAY_IN_MINUTES\<rparr>) = Some 1440
   \<and> minutesSinceSent exampleExt (message exampleReaction) = 1440
   \<and> isDisqualified exampleExt exampleReaction (no_conditions\<lparr>aged := Some DAY_IN_MINUTES\<rparr>) = Inr True
   \<and> minutesSinceSent (exampleExt\<lparr>Date_now := 86399999\<rparr>) (message exampleReaction) < 1440
   \<and> isDisqualified (exampleExt\<lparr>Date_now := 86399999\<rparr>) exampleReaction
        (no_conditions\<lparr>aged := Some DAY_IN_MINUTES\<rparr>) = Inr False"
proof -
  have a: "aged (no_conditions\<lparr>aged := Some DAY_IN_MINUTES\<rparr>) = Some 1440"
    by (simp add: DAY_IN_MINUTES_def)
  have m1: "minutesSinceSent exampleExt (message exampleReaction) = 1440"
    by (simp add: minutesSinceSent_def exampleExt_def exampleReaction_def exampleMessage_def)
  have m2: "minutesSinceSent (exampleExt\<lparr>Date_now := 86399999\<rparr>) (message exampleReaction) < 1440"
    by (simp add: minutesSinceSent_def exampleExt_def exampleReaction_def exampleMessage_def)
  have rest: "isDisqualified ext exampleReaction (no_conditions\<lparr>aged := Some DAY_IN_MINUTES, aged := None\<rparr>)
                = Inr True" for ext
    by (simp add: isDisqualified_def no_conditions_def)
  from isDisqualified_aged [OF a, of exampleExt exampleReaction]
       isDisqualified_aged [OF a, of "exampleExt\<lparr>Date_now := 86399999\<rparr>" exampleReaction]
       a m1 m2 rest
  show ?thesis by simp
qed

text \<open>
  C2. With the rules \<^verbatim>\<open>{content: ["equal", "foo"], reason: "first"}\<close> and
  \<^verbatim>\<open>{reason: "second"}\<close> and a message whose text is \<^verbatim>\<open>bar\<close>, only the second rule
  holds, yet the bad-star check returns the reason of the first rule: the content condition
  of the first rule is computed and found false, but the promise of that computation is
  what \<^verbatim>\<open>_isDisqualified\<close> tests.
\<close>

theorem handleDisqualify_returns_first_rule_reason:
  "badStars contentRuleSettings
     = Some [no_conditions\<lparr>content := Some (''equal'', ''foo''), reason := Some ''first''\<rparr>,
             no_conditions\<lparr>reason := Some ''second''\<rparr>]
   \<and> message_content (message (reaction exampleToCheck)) = ''bar''
   \<and> contentMatch (message_content (message (reaction exampleToCheck))) (''equal'', ''foo'')
       = Inr False
   \<and> handleDisqualify exampleExt contentRuleSettings exampleToCheck emptyWorld
       = (Inr (Str ''first''), emptyWorld)"
  by (simp add: handleDisqualify_def isDisqualified_def reason_or_true_def contentMatch_def
        promise_ToBoolean_def no_conditions_def contentRuleSettings_def exampleSettings_def
        exampleToCheck_def exampleReaction_def exampleMessage_def)

subsection \<open>Authors\<close>

lemma hook_entry_iff:
  "(startsWith author ''$hook:'' \<and> hook = drop (length ''$hook:'') author) = (author = ''$hook:'' @ hook)"
proof
  assume "startsWith author ''$hook:'' \<and> hook = drop (length ''$hook:'') author"
  then have "take (length ''$hook:'') author = ''$hook:''"
    and "drop (length ''$hook:'') author = hook"
    unfolding startsWith_def by blast+
  then show "author = ''$hook:'' @ hook"
    by (metis append_take_drop_id)
next
  assume "author = ''$hook:'' @ hook"
  then show "startsWith author ''$hook:'' \<and> hook = drop (length ''$hook:'') author"
    by (simp add: startsWith_def)
qed

lemma authoredBy_loop_no_sender:
  assumes "webhookID msg = Some hook" and "hook \<noteq> []"
  shows "authoredBy_loop msg None authors' = (''$hooks'' \<in> set authors' \<or> ''$hook:'' @ hook \<in> set authors')"
proof (induction authors')
  case Nil
  then show ?case by simp
next
  case (Cons author rest)
  show ?case
  proof (cases "author = ''$bots''")
    case True
    then show ?thesis using Cons by simp
  next
    case notBots: False
    show ?thesis
    proof (cases "author = ''$hooks''")
      case True
      then show ?thesis using assms by (simp add: string_ToBoolean_def)
    next
      case notHooks: False
      show ?thesis
      proof (cases "startsWith author ''$hook:''")
        case True
        then have "(hook = drop (length ''$hook:'') author) = (author = ''$hook:'' @ hook)"
          using hook_entry_iff [of author hook] by simp
        then show ?thesis
          using True notBots notHooks Cons assms by (auto simp: Let_def)
      next
        case False
        then have "author \<noteq> ''$hook:'' @ hook"
          using hook_entry_iff [of author hook] by blast
        then show ?thesis
          using False notBots notHooks Cons by auto
      qed
    qed
  qed
qed

text \<open>
  C3. A message posted through a webhook, for which no sender account is resolved, is
  matched by the entries \<^verbatim>\<open>$hooks\<close> and \<^verbatim>\<open>$hook:ID\<close> (with the ID of its webhook) and by
  no other entry: no literal account identifier matches it.
\<close>

theorem authoredBy_webhook_message:
  assumes "webhookID msg = Some hook" and "hook \<noteq> []"
    and "getMessageMemberOrAuthor ext msg = Inr None"
  shows "authoredBy ext msg authors'
           = Inr (''$hooks'' \<in> set authors' \<or> ''$hook:'' @ hook \<in> set authors')"
  using assms by (simp add: authoredBy_def authoredBy_loop_no_sender)

text \<open>
  A webhook message is not matched by literal identifiers, not even by the identifier of its
  webhook, and is matched by the entry naming its webhook.
\<close>

theorem authoredBy_webhook_message_witness:
  "webhookID exampleHookMessage = Some ''555'' \<and> ''555'' \<noteq> []
   \<and> getMessageMemberOrAuthor exampleExt exampleHookMessage = Inr None
   \<and> authoredBy exampleExt exampleHookMessage [''555'', ''m1''] = Inr False
   \<and> authoredBy exampleExt exampleHookMessage [''555'', ''$hook:555''] = Inr True"
proof -
  have hook: "webhookID exampleHookMessage = Some ''555''"
    by (simp add: exampleHookMessage_def)
  have nonempty: "''555'' \<noteq> []"
    by simp
  have none: "getMessageMemberOrAuthor exampleExt exampleHookMessage = Inr None"
    by (simp add: exampleExt_def exampleHookMessage_def)
  from authoredBy_webhook_message [OF hook nonempty none, of "[''555'', ''m1'']"]
       authoredBy_webhook_message [OF hook nonempty none, of "[''555'', ''$hook:555'']"]
       hook none
  show ?thesis by simp
qed

section \<open>Properties of the rule compiler\<close>

lemma step_names_not_indices:
  "\<not> isArrayIndex ''USER-BLOCK''" "\<not> isArrayIndex ''FILTER''" "\<not> isArrayIndex ''SELF-STAR''"
  by (simp_all add: isArrayIndex_def isDigit_def)

lemma forIn_named:
  "\<forall>p\<in>set obj. \<not> isArrayIndex (fst p) \<Longrightarrow> forIn obj = obj"
  by (simp add: forIn_def filter_id_conv filter_empty_conv)

lemma map_fst_disqualificationSteps:
  "map fst (disqualificationSteps ext s)
     = (if blockedStarrers s \<noteq> None then [''USER-BLOCK''] else [])
       @ (if badStars s \<noteq> None then [''FILTER''] else [])
       @ (if selfStarring s = Some True then [''SELF-STAR''] else [])"
  by (simp add: disqualificationSteps_def)

lemma forIn_disqualificationSteps:
  "forIn (disqualificationSteps ext s) = disqualificationSteps ext s"
proof (rule forIn_named)
  have "\<forall>n\<in>set (map fst (disqualificationSteps ext s)). \<not> isArrayIndex n"
    unfolding map_fst_disqualificationSteps using step_names_not_indices by auto
  then show "\<forall>p\<in>set (disqualificationSteps ext s). \<not> isArrayIndex (fst p)"
    by simp
qed

text \<open>
  C7. The steps of the compiled pipeline are enumerated in the order \<^verbatim>\<open>USER-BLOCK\<close>,
  \<^verbatim>\<open>FILTER\<close>, \<^verbatim>\<open>SELF-STAR\<close>, each present only when its configuration section is; the
  module stores the evaluator compiled from these steps; and with self-starring configured
  \<open>false\<close> the pipeline has no \<^verbatim>\<open>SELF-STAR\<close> step.
\<close>

theorem compiled_step_order:
  "map fst (forIn (disqualificationSteps ext s))
     = (if blockedStarrers s \<noteq> None then [''USER-BLOCK''] else [])
       @ (if badStars s \<noteq> None then [''FILTER''] else [])
       @ (if selfStarring s = Some True then [''SELF-STAR''] else [])
   \<and> (init ext baseCheck pending loaded = Inr this
        \<longrightarrow> compiledDisqualificationProcess this
              = Some (calledAnyOf (disqualificationSteps ext (settings this)) None))
   \<and> (init ext baseCheck pending (Some cfg) = Inr this \<and> cfg_selfStarring cfg = Value False
        \<longrightarrow> ''SELF-STAR'' \<notin> set (map fst (forIn (disqualificationSteps ext (settings this)))))"
proof (intro conjI impI)
  show "map fst (forIn (disqualificationSteps ext s))
     = (if blockedStarrers s \<noteq> None then [''USER-BLOCK''] else [])
       @ (if badStars s \<noteq> None then [''FILTER''] else [])
       @ (if selfStarring s = Some True then [''SELF-STAR''] else [])"
    by (simp only: forIn_disqualificationSteps map_fst_disqualificationSteps)
next
  assume "init ext baseCheck pending loaded = Inr this"
  then show "compiledDisqualificationProcess this
              = Some (calledAnyOf (disqualificationSteps ext (settings this)) None)"
    by (auto simp: init_def split: if_splits sum.splits)
next
  assume a: "init ext baseCheck pending (Some cfg) = Inr this \<and> cfg_selfStarring cfg = Value False"
  then have "selfStarring (settings this) = Some False"
    by (auto simp: init_def initConfig_def split: if_splits sum.splits option.splits)
  then show "''SELF-STAR'' \<notin> set (map fst (forIn (disqualificationSteps ext (settings this))))"
    by (simp add: forIn_disqualificationSteps map_fst_disqualificationSteps)
qed

text \<open>
  A configuration that only sets the guild and disables the self-star check.
\<close>

theorem compiled_step_order_witness:
  "(\<exists>this. init exampleExt True True (Some exampleConfig) = Inr this
       \<and> cfg_selfStarring exampleConfig = Value False
       \<and> map fst (forIn (disqualificationSteps exampleExt (settings this))) = [''USER-BLOCK'', ''FILTER'']
       \<and> ''SELF-STAR'' \<notin> set (map fst (forIn (disqualificationSteps exampleExt (settings this))))
       \<and> compiledDisqualificationProcess this
           = Some (calledAnyOf (disqualificationSteps exampleExt (settings this)) None))"
proof -
  obtain this where i: "init exampleExt True True (Some exampleConfig) = Inr this"
    by (simp add: init_def initConfig_def exampleConfig_def)
  have f: "cfg_selfStarring exampleConfig = Value False"
    by (simp add: exampleConfig_def)
  have s: "blockedStarrers (settings this) \<noteq> None \<and> badStars (settings this) \<noteq> None
           \<and> selfStarring (settings this) = Some False"
    using i by (auto simp: init_def initConfig_def exampleConfig_def)
  from compiled_step_order [of exampleExt "settings this" True True "Some exampleConfig" this exampleConfig]
       i f s
  show ?thesis by auto
qed

section \<open>Properties of the any-of combinator\<close>

lemma anyOf_loop_passes_prefix:
  "passes pre args s = Some s1 \<Longrightarrow>
     anyOf_loop None (pre @ rest) args s = anyOf_loop None rest args s1"
  by (induction pre arbitrary: s) (auto split: prod.splits sum.splits if_splits)

text \<open>
  C1, amended. The evaluator awaits the checks in the enumeration order of the object's
  properties, which is the insertion order when no name is an array index. It stops at the
  first check that returns a truthy result and returns that name and result in the state
  that check left, whatever the later checks are; when every check returns a falsy result
  it returns nothing.
\<close>

theorem calledAnyOf_first_truthy:
  "(forIn functions = pre @ (name, func) # post \<and> passes pre args s = Some s1
      \<and> func args s1 = (Inr res, s2) \<and> ToBoolean res
      \<longrightarrow> calledAnyOf functions None args s = (Inr (Some (name, res)), s2))
   \<and> (passes (forIn functions) args s = Some s'
      \<longrightarrow> calledAnyOf functions None args s = (Inr None, s'))
   \<and> ((\<forall>p\<in>set functions. \<not> isArrayIndex (fst p)) \<longrightarrow> forIn functions = functions)"
proof (intro conjI impI)
  assume a: "forIn functions = pre @ (name, func) # post \<and> passes pre args s = Some s1
      \<and> func args s1 = (Inr res, s2) \<and> ToBoolean res"
  then have "anyOf_loop None (pre @ (name, func) # post) args s
               = anyOf_loop None ((name, func) # post) args s1"
    by (simp add: anyOf_loop_passes_prefix)
  also have "\<dots> = (Inr (Some (name, res)), s2)"
    using a by simp
  finally show "calledAnyOf functions None args s = (Inr (Some (name, res)), s2)"
    using a by (simp add: calledAnyOf_def)
next
  assume "passes (forIn functions) args s = Some s'"
  then have "anyOf_loop None (forIn functions @ []) args s = anyOf_loop None [] args s'"
    by (rule anyOf_loop_passes_prefix)
  then show "calledAnyOf functions None args s = (Inr None, s')"
    by (simp add: calledAnyOf_def)
next
  assume "\<forall>p\<in>set functions. \<not> isArrayIndex (fst p)"
  then show "forIn functions = functions"
    by (rule forIn_named)
qed
text \<open>
  Three instrumented checks of which the first returns a reason: only the first is invoked.
  Two checks that return \<open>false\<close> and the empty string: both are invoked, nothing is
  returned.
\<close>

theorem calledAnyOf_first_truthy_witness:
  "calledAnyOf threeChecks None () [] = (Inr (Some (''USER-BLOCK'', Str ''blocked'')), [''first''])
   \<and> calledAnyOf passingChecks None () [] = (Inr None, [''first'', ''second''])
   \<and> forIn threeChecks = threeChecks"
proof -
  have names: "\<forall>p\<in>set threeChecks. \<not> isArrayIndex (fst p)"
    by (simp add: threeChecks_def step_names_not_indices)
  have names': "\<forall>p\<in>set passingChecks. \<not> isArrayIndex (fst p)"
    by (simp add: passingChecks_def step_names_not_indices)
  have order: "forIn threeChecks = threeChecks"
    using calledAnyOf_first_truthy [of threeChecks] names by blast
  have order': "forIn passingChecks = passingChecks"
    using calledAnyOf_first_truthy [of passingChecks] names' by blast
  have split: "forIn threeChecks
      = [] @ (''USER-BLOCK'', loggingCheck ''first'' (Str ''blocked''))
           # [(''FILTER'', loggingCheck ''second'' (Bool True)),
              (''SELF-STAR'', loggingCheck ''third'' (Bool True))]"
    unfolding order by (simp add: threeChecks_def)
  have pre: "passes [] () ([]::string list) = Some []"
    by simp
  have hit: "loggingCheck ''first'' (Str ''blocked'') () [] = (Inr (Str ''blocked''), [''first''])"
    by (simp add: loggingCheck_def)
  have truthy: "ToBoolean (Str ''blocked'')"
    by simp
  have all: "passes (forIn passingChecks) () [] = Some [''first'', ''second'']"
    unfolding order' by (simp add: passingChecks_def loggingCheck_def)
  from calledAnyOf_first_truthy
         [of threeChecks "[]" "''USER-BLOCK''" "loggingCheck ''first'' (Str ''blocked'')"
             "[(''FILTER'', loggingCheck ''second'' (Bool True)),
               (''SELF-STAR'', loggingCheck ''third'' (Bool True))]"
             "()" "[]" "[]" "Str ''blocked''" "[''first'']"]
       calledAnyOf_first_truthy [of passingChecks _ _ _ _ "()" "[]" _ _ _ "[''first'', ''second'']"]
       split pre hit truthy all order
  show ?thesis by blast
qed

lemma forIn_indexNamedChecks:
  "forIn indexNamedChecks
     = [(''0'', loggingCheck ''zero'' (Str ''zero'')), (''1'', loggingCheck ''one'' (Bool True))]"
  by (simp add: forIn_def indexNamedChecks_def isArrayIndex_def isDigit_def toNumber_def)

text \<open>
  C1 as stated fails for names that are array indices: the check named \<^verbatim>\<open>1\<close> is inserted
  first and returns \<open>true\<close>, but the check named \<^verbatim>\<open>0\<close>, inserted second, is the one
  invoked, and its result is returned.
\<close>

theorem calledAnyOf_insertion_order_counterexample:
  "indexNamedChecks
     = [(''1'', loggingCheck ''one'' (Bool True)), (''0'', loggingCheck ''zero'' (Str ''zero''))]
   \<and> loggingCheck ''one'' (Bool True) () [] = (Inr (Bool True), [''one''])
   \<and> calledAnyOf indexNamedChecks None () [] \<noteq> (Inr (Some (''1'', Bool True)), [''one''])
   \<and> calledAnyOf indexNamedChecks None () [] = (Inr (Some (''0'', Str ''zero'')), [''zero''])"
  by (simp add: calledAnyOf_def forIn_indexNamedChecks)
     (simp add: indexNamedChecks_def loggingCheck_def)

section \<open>Properties of the entry point\<close>

text \<open>
  C9. When the evaluator rejects a reaction event, the first request to the platform is the
  retraction of the reaction. Once the reaction is retracted, the warning naming the step
  (and the reason, if the detail is a string) is requested next, and whether or not its
  delivery fails the handler returns \<open>true\<close> without an error and the reaction stays
  retracted; a failed delivery is logged as a warning.
\<close>

theorem warning_failure_is_swallowed:
  assumes "message_guild_id (message r) = Some (guildId (settings this))"
    and "Some (emoji_name r) = starEmoji (settings this)"
    and "compiledDisqualificationProcess this = Some disqualProcess"
    and "disqualProcess \<lparr>reaction = r, user = u\<rparr> w = (Inr (Some (name, detail)), w1)"
  shows "take (Suc (length (calls w1))) (calls (snd (handleReactionAdding ext this r u w)))
           = calls w1 @ [UsersRemove (message_id (message r)) (emoji_name r) (user_id u)]
         \<and> (remove_ok ext r u \<longrightarrow>
              fst (handleReactionAdding ext this r u w) = Inr True
              \<and> calls (snd (handleReactionAdding ext this r u w))
                  = calls w1 @ [UsersRemove (message_id (message r)) (emoji_name r) (user_id u),
                                Send (user_id u) (getAutoReasonStr name)
                                  (case detail of Str reason' \<Rightarrow> Some reason' | Bool b \<Rightarrow> None)]
              \<and> reactions (snd (handleReactionAdding ext this r u w))
                  = reactions w1 - {(message_id (message r), emoji_name r, user_id u)}
              \<and> (\<not> send_ok ext u \<longrightarrow>
                   last (logged (snd (handleReactionAdding ext this r u w)))
                     = (''warn'', ''Cannot send warning ('' @ show_reasons (name, detail)
                                   @ '') to '' @ tag u)))"
proof (cases detail)
  case (Bool b)
  with assms show ?thesis
    by (simp add: handleReactionAdding_def removeReaction_def sendWarning_def
          StarsControl_log_def request_def Let_def)
next
  case (Str reason')
  with assms show ?thesis
    by (simp add: handleReactionAdding_def removeReaction_def sendReasonedWarning_def
          StarsControl_log_def request_def Let_def)
qed

lemma exampleModule_rejects_bot:
  "calledAnyOf (disqualificationSteps exampleExt exampleSettings) None
     \<lparr>reaction = exampleReaction, user = botUser\<rparr> starredWorld
   = (Inr (Some (''USER-BLOCK'', Bool True)), starredWorld)"
  by (simp add: calledAnyOf_def forIn_disqualificationSteps)
     (simp add: disqualificationSteps_def exampleSettings_def handleBlockedStarrers_def botUser_def)

text \<open>
  An automated account stars a message while the platform rejects direct messages: the
  reaction is retracted, the warning is attempted, and the handler returns \<open>true\<close>.
\<close>

theorem warning_failure_is_swallowed_witness:
  "remove_ok exampleExt exampleReaction botUser
   \<and> \<not> send_ok exampleExt botUser
   \<and> (''900'', STAR_REACTION, ''b7'') \<in> reactions starredWorld
   \<and> fst (handleReactionAdding exampleExt exampleModule exampleReaction botUser starredWorld) = Inr True
   \<and> calls (snd (handleReactionAdding exampleExt exampleModule exampleReaction botUser starredWorld))
       = [UsersRemove ''900'' STAR_REACTION ''b7'', Send ''b7'' ''DNSERV_STAR_BLOCKED@USER-BLOCK'' None]
   \<and> reactions (snd (handleReactionAdding exampleExt exampleModule exampleReaction botUser starredWorld))
       = {}"
proof -
  have guild: "message_guild_id (message exampleReaction) = Some (guildId (settings exampleModule))"
    by (simp add: exampleReaction_def exampleMessage_def exampleModule_def exampleSettings_def)
  have emoji: "Some (emoji_name exampleReaction) = starEmoji (settings exampleModule)"
    by (simp add: exampleReaction_def exampleModule_def exampleSettings_def)
  have compiled: "compiledDisqualificationProcess exampleModule
                    = Some (calledAnyOf (disqualificationSteps exampleExt exampleSettings) None)"
    by (simp add: exampleModule_def)
  have removable: "remove_ok exampleExt exampleReaction botUser"
    by (simp add: exampleExt_def)
  have undeliverable: "\<not> send_ok exampleExt botUser"
    by (simp add: exampleExt_def)
  have present: "(''900'', STAR_REACTION, ''b7'') \<in> reactions starredWorld"
    by (simp add: starredWorld_def)
  from warning_failure_is_swallowed
         [OF guild emoji compiled exampleModule_rejects_bot, of exampleExt]
       removable undeliverable present
  show ?thesis
    by (simp add: starredWorld_def emptyWorld_def exampleReaction_def exampleMessage_def
          botUser_def getAutoReasonStr_def)
qed

end
